theory Spec2Isabelle
  imports Main "HOL-Library.Word"
begin

unbundle bit_operations_syntax

section \<open>Python values\<close>

text \<open>
  A Python \<open>str\<close> is a sequence of Unicode code points, a \<open>bytes\<close> object a sequence
  of octets. String literals of the source are written with \<open>str\<close>.
\<close>

type_synonym byte = "8 word"
type_synonym u32 = "32 word"
type_synonym pystr = "nat list"

definition str :: "string \<Rightarrow> pystr" where
  "str cs = map of_char cs"

definition byte_of :: "nat \<Rightarrow> byte" where
  "byte_of n = word_of_nat n"

text \<open>A float is not-a-number, an infinity (\<open>True\<close> for the positive one) or \<open>m * 2 ^ e\<close>.\<close>

datatype pyfloat = NaN | Inf bool | Fin int int

datatype pyval =
    PNone
  | PBool bool
  | PInt int
  | PFloat pyfloat
  | PStr pystr
  | PList "pyval list"
  | PDict "(pystr \<times> pyval) list"

datatype error =
    ValidationError pystr
  | PayeerAPIException pyval
  | TypeError
  | KeyError pystr
  | AttributeError
  | UnicodeEncodeError
  | UnicodeDecodeError
  | RequestException pystr

definition bnd :: "error + 'a \<Rightarrow> ('a \<Rightarrow> error + 'b) \<Rightarrow> error + 'b" where
  "bnd m f = (case m of Inl e \<Rightarrow> Inl e | Inr x \<Rightarrow> f x)"

text \<open>Truth value of an object, as \<open>if x:\<close> tests it.\<close>

fun py_bool :: "pyval \<Rightarrow> bool" where
  "py_bool PNone = False"
| "py_bool (PBool b) = b"
| "py_bool (PInt i) = (i \<noteq> 0)"
| "py_bool (PFloat f) = (case f of Fin m e \<Rightarrow> m \<noteq> 0 | _ \<Rightarrow> True)"
| "py_bool (PStr s) = (s \<noteq> [])"
| "py_bool (PList xs) = (xs \<noteq> [])"
| "py_bool (PDict d) = (d \<noteq> [])"

text \<open>\<open>x > 0\<close>: numbers compare, anything else raises \<open>TypeError\<close>.\<close>

fun py_gt0 :: "pyval \<Rightarrow> error + bool" where
  "py_gt0 (PBool b) = Inr b"
| "py_gt0 (PInt i) = Inr (0 < i)"
| "py_gt0 (PFloat f) = Inr (case f of Fin m e \<Rightarrow> 0 < m | Inf pos \<Rightarrow> pos | NaN \<Rightarrow> False)"
| "py_gt0 _ = Inl TypeError"

subsection \<open>Dictionaries\<close>

text \<open>
  A \<open>dict\<close> keeps insertion order: an association list with distinct keys. Storing under
  an existing key replaces the value in place, a new key goes to the end.
\<close>

fun dict_set :: "('k \<times> 'v) list \<Rightarrow> 'k \<Rightarrow> 'v \<Rightarrow> ('k \<times> 'v) list" where
  "dict_set [] k v = [(k, v)]"
| "dict_set ((k', v') # d) k v = (if k' = k then (k, v) # d else (k', v') # dict_set d k v)"

fun dict_update :: "('k \<times> 'v) list \<Rightarrow> ('k \<times> 'v) list \<Rightarrow> ('k \<times> 'v) list" where
  "dict_update d [] = d"
| "dict_update d ((k, v) # e) = dict_update (dict_set d k v) e"

definition dict_get :: "('k \<times> 'v) list \<Rightarrow> 'k \<Rightarrow> 'v \<Rightarrow> 'v" where
  "dict_get d k dflt = (case map_of d k of None \<Rightarrow> dflt | Some v \<Rightarrow> v)"

definition dict_item :: "(pystr \<times> 'v) list \<Rightarrow> pystr \<Rightarrow> error + 'v" where
  "dict_item d k = (case map_of d k of None \<Rightarrow> Inl (KeyError k) | Some v \<Rightarrow> Inr v)"

text \<open>\<open>x[k]\<close> and \<open>x.get(k, default)\<close> on a value that should be a dict.\<close>

fun py_item :: "pyval \<Rightarrow> pystr \<Rightarrow> error + pyval" where
  "py_item (PDict d) k = dict_item d k"
| "py_item _ k = Inl TypeError"

fun py_get :: "pyval \<Rightarrow> pystr \<Rightarrow> pyval \<Rightarrow> error + pyval" where
  "py_get (PDict d) k dflt = Inr (dict_get d k dflt)"
| "py_get _ k dflt = Inl AttributeError"

section \<open>Text and byte codecs of the standard library\<close>

subsection \<open>UTF-8\<close>

definition scalar_value :: "nat \<Rightarrow> bool" where
  "scalar_value c = (c < 0xD800 \<or> (0xE000 \<le> c \<and> c < 0x110000))"

definition utf8_char :: "nat \<Rightarrow> byte list" where
  "utf8_char c =
     (if c < 0x80 then [byte_of c]
      else if c < 0x800 then [byte_of (0xC0 + c div 64), byte_of (0x80 + c mod 64)]
      else if c < 0x10000 then
        [byte_of (0xE0 + c div 4096), byte_of (0x80 + c div 64 mod 64),
         byte_of (0x80 + c mod 64)]
      else
        [byte_of (0xF0 + c div 262144), byte_of (0x80 + c div 4096 mod 64),
         byte_of (0x80 + c div 64 mod 64), byte_of (0x80 + c mod 64)])"

text \<open>\<open>s.encode('utf-8')\<close>: a surrogate code point raises \<open>UnicodeEncodeError\<close>.\<close>

fun utf8_encode :: "pystr \<Rightarrow> error + byte list" where
  "utf8_encode [] = Inr []"
| "utf8_encode (c # cs) =
     (if scalar_value c
      then (case utf8_encode cs of Inl e \<Rightarrow> Inl e | Inr bs \<Rightarrow> Inr (utf8_char c @ bs))
      else Inl UnicodeEncodeError)"

definition is_cont :: "byte \<Rightarrow> bool" where
  "is_cont b = (0x80 \<le> unat b \<and> unat b < 0xC0)"

text \<open>\<open>b.decode('utf-8')\<close>, strict: \<open>None\<close> where Python raises \<open>UnicodeDecodeError\<close>.\<close>

fun utf8_decode :: "byte list \<Rightarrow> pystr option" where
  "utf8_decode [] = Some []"
| "utf8_decode (b # bs) =
     (if unat b < 0x80 then map_option (Cons (unat b)) (utf8_decode bs)
      else if unat b < 0xC2 then None
      else if unat b < 0xE0 then
        (case bs of
           b1 # r \<Rightarrow>
             if is_cont b1
             then map_option (Cons ((unat b - 0xC0) * 64 + (unat b1 - 0x80))) (utf8_decode r)
             else None
         | _ \<Rightarrow> None)
      else if unat b < 0xF0 then
        (case bs of
           b1 # b2 # r \<Rightarrow>
             (let c = (unat b - 0xE0) * 4096 + (unat b1 - 0x80) * 64 + (unat b2 - 0x80)
              in if is_cont b1 \<and> is_cont b2 \<and> 0x800 \<le> c \<and> scalar_value c
                 then map_option (Cons c) (utf8_decode r) else None)
         | _ \<Rightarrow> None)
      else if unat b < 0xF5 then
        (case bs of
           b1 # b2 # b3 # r \<Rightarrow>
             (let c = (unat b - 0xF0) * 262144 + (unat b1 - 0x80) * 4096
                      + (unat b2 - 0x80) * 64 + (unat b3 - 0x80)
              in if is_cont b1 \<and> is_cont b2 \<and> is_cont b3 \<and> 0x10000 \<le> c \<and> c < 0x110000
                 then map_option (Cons c) (utf8_decode r) else None)
         | _ \<Rightarrow> None)
      else None)"

subsection \<open>Base64\<close>

text \<open>The standard alphabet \<open>A-Z a-z 0-9 + /\<close>, with \<open>=\<close> (0x3D) as padding.\<close>

definition b64_char :: "nat \<Rightarrow> byte" where
  "b64_char i =
     byte_of (if i < 26 then 65 + i
              else if i < 52 then 71 + i
              else if i < 62 then i - 4
              else if i = 62 then 43 else 47)"

fun b64encode :: "byte list \<Rightarrow> byte list" where
  "b64encode [] = []"
| "b64encode [a] =
     [b64_char (unat a div 4), b64_char (unat a mod 4 * 16), 0x3D, 0x3D]"
| "b64encode [a, b] =
     [b64_char (unat a div 4), b64_char (unat a mod 4 * 16 + unat b div 16),
      b64_char (unat b mod 16 * 4), 0x3D]"
| "b64encode (a # b # c # rest) =
     [b64_char (unat a div 4), b64_char (unat a mod 4 * 16 + unat b div 16),
      b64_char (unat b mod 16 * 4 + unat c div 64), b64_char (unat c mod 64)]
     @ b64encode rest"

definition b64_index :: "byte \<Rightarrow> nat option" where
  "b64_index b =
     (let n = unat b
      in if 65 \<le> n \<and> n \<le> 90 then Some (n - 65)
         else if 97 \<le> n \<and> n \<le> 122 then Some (n - 71)
         else if 48 \<le> n \<and> n \<le> 57 then Some (n + 4)
         else if n = 43 then Some 62
         else if n = 47 then Some 63
         else None)"

definition b64_quad :: "byte \<Rightarrow> byte \<Rightarrow> byte \<Rightarrow> byte \<Rightarrow> bool \<Rightarrow> byte list option" where
  "b64_quad c0 c1 c2 c3 final =
     (case (b64_index c0, b64_index c1) of
        (Some i0, Some i1) \<Rightarrow>
          if final \<and> c2 = 0x3D \<and> c3 = 0x3D then
            (if i1 mod 16 = 0 then Some [byte_of (i0 * 4 + i1 div 16)] else None)
          else if final \<and> c3 = 0x3D then
            (case b64_index c2 of
               Some i2 \<Rightarrow>
                 if i2 mod 4 = 0
                 then Some [byte_of (i0 * 4 + i1 div 16),
                            byte_of (i1 mod 16 * 16 + i2 div 4)]
                 else None
             | None \<Rightarrow> None)
          else
            (case (b64_index c2, b64_index c3) of
               (Some i2, Some i3) \<Rightarrow>
                 Some [byte_of (i0 * 4 + i1 div 16),
                       byte_of (i1 mod 16 * 16 + i2 div 4),
                       byte_of (i2 mod 4 * 64 + i3)]
             | _ \<Rightarrow> None)
      | _ \<Rightarrow> None)"

text \<open>
  The decoder of the receiving side: groups of four characters, padding in the last group
  only. The repository has no decoder; this one states the round trip.
\<close>

fun b64decode :: "byte list \<Rightarrow> byte list option" where
  "b64decode [] = Some []"
| "b64decode (c0 # c1 # c2 # c3 # rest) =
     (case b64_quad c0 c1 c2 c3 (rest = []) of
        None \<Rightarrow> None
      | Some bs \<Rightarrow> map_option (append bs) (b64decode rest))"
| "b64decode _ = None"

text \<open>\<open>base64.b64decode(text).decode('utf-8')\<close> on a \<open>str\<close> argument.\<close>

definition b64decode_text :: "pystr \<Rightarrow> pystr option" where
  "b64decode_text e =
     (case utf8_encode e of
        Inl _ \<Rightarrow> None
      | Inr bs \<Rightarrow> (case b64decode bs of None \<Rightarrow> None | Some raw \<Rightarrow> utf8_decode raw))"

subsection \<open>SHA-256 (FIPS 180-4) and its hexadecimal digest\<close>

text \<open>The round constants and the initial hash value of the standard, in decimal.\<close>

definition rotr :: "nat \<Rightarrow> u32 \<Rightarrow> u32" where
  "rotr n x = drop_bit n x OR push_bit (32 - n) x"

definition ch :: "u32 \<Rightarrow> u32 \<Rightarrow> u32 \<Rightarrow> u32" where
  "ch x y z = (x AND y) XOR (NOT x AND z)"

definition maj :: "u32 \<Rightarrow> u32 \<Rightarrow> u32 \<Rightarrow> u32" where
  "maj x y z = (x AND y) XOR (x AND z) XOR (y AND z)"

definition bsig0 :: "u32 \<Rightarrow> u32" where
  "bsig0 x = rotr 2 x XOR rotr 13 x XOR rotr 22 x"

definition bsig1 :: "u32 \<Rightarrow> u32" where
  "bsig1 x = rotr 6 x XOR rotr 11 x XOR rotr 25 x"

definition ssig0 :: "u32 \<Rightarrow> u32" where
  "ssig0 x = rotr 7 x XOR rotr 18 x XOR drop_bit 3 x"

definition ssig1 :: "u32 \<Rightarrow> u32" where
  "ssig1 x = rotr 17 x XOR rotr 19 x XOR drop_bit 10 x"

definition sha256_k :: "u32 list" where
  "sha256_k =
    [
     1116352408, 1899447441, 3049323471, 3921009573, 961987163, 1508970993,
     2453635748, 2870763221, 3624381080, 310598401, 607225278, 1426881987,
     1925078388, 2162078206, 2614888103, 3248222580, 3835390401, 4022224774,
     264347078, 604807628, 770255983, 1249150122, 1555081692, 1996064986,
     2554220882, 2821834349, 2952996808, 3210313671, 3336571891, 3584528711,
     113926993, 338241895, 666307205, 773529912, 1294757372, 1396182291,
     1695183700, 1986661051, 2177026350, 2456956037, 2730485921, 2820302411,
     3259730800, 3345764771, 3516065817, 3600352804, 4094571909, 275423344,
     430227734, 506948616, 659060556, 883997877, 958139571, 1322822218,
     1537002063, 1747873779, 1955562222, 2024104815, 2227730452, 2361852424,
     2428436474, 2756734187, 3204031479, 3329325298
    ]"

definition sha256_h0 :: "u32 list" where
  "sha256_h0 =
    [
     1779033703, 3144134277, 1013904242, 2773480762, 1359893119, 2600822924,
     528734635, 1541459225
    ]"

fun be_words :: "byte list \<Rightarrow> u32 list" where
  "be_words (a # b # c # d # rest) =
     (push_bit 24 (ucast a) OR push_bit 16 (ucast b) OR push_bit 8 (ucast c) OR ucast d)
     # be_words rest"
| "be_words _ = []"

definition be_bytes :: "u32 \<Rightarrow> byte list" where
  "be_bytes w = [ucast (drop_bit 24 w), ucast (drop_bit 16 w), ucast (drop_bit 8 w), ucast w]"

text \<open>The message schedule extends 16 words to 64; the list is kept newest first.\<close>

fun schedule :: "nat \<Rightarrow> u32 list \<Rightarrow> u32 list" where
  "schedule 0 ws = ws"
| "schedule (Suc n) ws =
     schedule n ((ssig1 (ws ! 1) + ws ! 6 + ssig0 (ws ! 14) + ws ! 15) # ws)"

fun rounds :: "u32 list \<Rightarrow> u32 list \<Rightarrow> u32 list \<Rightarrow> u32 list" where
  "rounds (k # ks) (w # ws) [a, b, c, d, e, f, g, h] =
     (let t1 = h + bsig1 e + ch e f g + k + w;
          t2 = bsig0 a + maj a b c
      in rounds ks ws [t1 + t2, a, b, c, d + t1, e, f, g])"
| "rounds _ _ st = st"

definition compress :: "u32 list \<Rightarrow> byte list \<Rightarrow> u32 list" where
  "compress st block =
     map2 (+) st (rounds sha256_k (rev (schedule 48 (rev (be_words block)))) st)"

definition pad :: "byte list \<Rightarrow> byte list" where
  "pad m =
     (let n = length m;
          z = (119 - n mod 64) mod 64;
          bits = (word_of_nat (8 * n) :: 64 word)
      in m @ [0x80] @ replicate z 0 @
         map (\<lambda>i. ucast (drop_bit (8 * i) bits)) [7, 6, 5, 4, 3, 2, 1, 0])"

fun blocks :: "nat \<Rightarrow> u32 list \<Rightarrow> byte list \<Rightarrow> u32 list" where
  "blocks 0 st bs = st"
| "blocks (Suc n) st bs = blocks n (compress st (take 64 bs)) (drop 64 bs)"

definition sha256 :: "byte list \<Rightarrow> byte list" where
  "sha256 m = (let p = pad m in concat (map be_bytes (blocks (length p div 64) sha256_h0 p)))"

definition hex_char :: "nat \<Rightarrow> nat" where
  "hex_char d = (if d < 10 then 0x30 + d else 0x57 + d)"

definition hexdigest :: "byte list \<Rightarrow> pystr" where
  "hexdigest bs = concat (map (\<lambda>b. [hex_char (unat b div 16), hex_char (unat b mod 16)]) bs)"

text \<open>\<open>str.upper\<close> on ASCII text (it is applied to a hexadecimal digest only).\<close>

definition py_upper :: "pystr \<Rightarrow> pystr" where
  "py_upper s = map (\<lambda>c. if 0x61 \<le> c \<and> c \<le> 0x7A then c - 0x20 else c) s"

definition upper_hex_digit :: "nat \<Rightarrow> bool" where
  "upper_hex_digit c = ((0x30 \<le> c \<and> c \<le> 0x39) \<or> (0x41 \<le> c \<and> c \<le> 0x46))"

subsection \<open>Joining, splitting, stripping\<close>

fun join :: "pystr \<Rightarrow> pystr list \<Rightarrow> pystr" where
  "join sep [] = []"
| "join sep [x] = x"
| "join sep (x # y # r) = x @ sep @ join sep (y # r)"

text \<open>Iterating a value: a sequence gives its items, a \<open>str\<close> its characters, a dict its keys.\<close>

fun py_iter :: "pyval \<Rightarrow> error + pyval list" where
  "py_iter (PList xs) = Inr xs"
| "py_iter (PStr s) = Inr (map (\<lambda>c. PStr [c]) s)"
| "py_iter (PDict d) = Inr (map (\<lambda>kv. PStr (fst kv)) d)"
| "py_iter _ = Inl TypeError"

text \<open>\<open>str.join\<close> raises \<open>TypeError\<close> on an item that is not a \<open>str\<close>.\<close>

fun str_items :: "pyval list \<Rightarrow> error + pystr list" where
  "str_items [] = Inr []"
| "str_items (PStr s # r) = (case str_items r of Inl e \<Rightarrow> Inl e | Inr ss \<Rightarrow> Inr (s # ss))"
| "str_items (_ # r) = Inl TypeError"

fun split_acc :: "nat \<Rightarrow> pystr \<Rightarrow> pystr \<Rightarrow> pystr list" where
  "split_acc sep cur [] = [rev cur]"
| "split_acc sep cur (c # cs) =
     (if c = sep then rev cur # split_acc sep [] cs else split_acc sep (c # cur) cs)"

definition split_on :: "nat \<Rightarrow> pystr \<Rightarrow> pystr list" where
  "split_on sep s = split_acc sep [] s"

definition is_space :: "nat \<Rightarrow> bool" where
  "is_space c = (c \<in> set [0x09, 0x0A, 0x0B, 0x0C, 0x0D, 0x1C, 0x1D, 0x1E, 0x1F, 0x20, 0x85, 0xA0,
      0x1680, 0x2000, 0x2001, 0x2002, 0x2003, 0x2004, 0x2005, 0x2006, 0x2007, 0x2008, 0x2009,
      0x200A, 0x2028, 0x2029, 0x202F, 0x205F, 0x3000])"

definition strip :: "pystr \<Rightarrow> pystr" where
  "strip s = rev (dropWhile is_space (rev (dropWhile is_space s)))"

section \<open>The module \<open>payeer/api.py\<close>\<close>

subsection \<open>Configuration and collaborators\<close>

text \<open>
  What the module imports from outside \<open>api.py\<close> is a parameter of the model:
  \<^item> \<open>unicode_digit\<close>: the Unicode database's decimal-digit test, asked for code points
    beyond ASCII only (\<open>\d\<close> of a \<open>str\<close> pattern matches those too);
  \<^item> \<open>allowed_ips\<close>: \<open>PAYEER_ALLOWED_IPS\<close>;
  \<^item> \<open>default_language\<close>: \<open>PAYEER.get('LANGUAGE', LANGUAGE_RU)\<close>;
  \<^item> \<open>form_field\<close>: the field validators of \<open>MerchantForm\<close>, giving the cleaned value of a
    field or \<open>None\<close> where the field is invalid;
  \<^item> \<open>urlencode\<close>: \<open>urllib.parse.urlencode\<close>.
\<close>

record env =
  unicode_digit :: "nat \<Rightarrow> bool"
  allowed_ips :: "pystr list"
  default_language :: pyval
  form_field :: "pystr \<Rightarrow> pyval \<Rightarrow> pyval option"
  urlencode :: "(pystr \<times> pyval) list \<Rightarrow> error + pystr"

text \<open>
  A Django form after \<open>is_valid()\<close>: \<open>cleaned_data\<close> holds the cleaned value of every
  field that validated, and no entry for a field that did not.
\<close>

definition cleaned_data ::
  "(pystr \<Rightarrow> pyval \<Rightarrow> pyval option) \<Rightarrow> (pystr \<times> pyval) list \<Rightarrow> (pystr \<times> pyval) list" where
  "cleaned_data fld raw =
     concat (map (\<lambda>kv. case fld (fst kv) (snd kv) of None \<Rightarrow> [] | Some v \<Rightarrow> [(fst kv, v)]) raw)"

fun is_digits :: "pystr \<Rightarrow> bool" where
  "is_digits [] = False"
| "is_digits [c] = (0x30 \<le> c \<and> c \<le> 0x39)"
| "is_digits (c # cs) = (0x30 \<le> c \<and> c \<le> 0x39 \<and> is_digits cs)"

definition is_numeric :: "pystr \<Rightarrow> bool" where
  "is_numeric s =
     (case split_on 0x2E s of
        [i] \<Rightarrow> is_digits i
      | [i, f] \<Rightarrow> is_digits i \<and> is_digits f
      | _ \<Rightarrow> False)"

text \<open>
  Modelled from the spec: \<open>MerchantForm\<close> of \<open>payeer/forms.py\<close>, which is not among the
  sources. The spec gives its constraints: the amount is numeric, the currency and the
  language are recognized codes; every field is text and is kept as it was given.
\<close>

definition merchant_form :: "pystr list \<Rightarrow> pystr list \<Rightarrow> pystr \<Rightarrow> pyval \<Rightarrow> pyval option" where
  "merchant_form currencies languages name v =
     (case v of
        PStr s \<Rightarrow>
          if name = str ''amount'' then (if is_numeric s then Some v else None)
          else if name = str ''currency'' then (if s \<in> set currencies then Some v else None)
          else if name = str ''language'' then (if s \<in> set languages then Some v else None)
          else Some v
      | _ \<Rightarrow> None)"

text \<open>The credentials held by a \<open>PayeerApi\<close> object.\<close>

record payeer_api =
  account :: pystr
  api_id :: pystr
  api_pass :: pystr
  merchant_id :: pystr
  merchant_secret_key :: pystr

text \<open>
  The network: \<open>respond\<close> is what \<open>requests.post(url, data).json()\<close> gives (or raises) after
  the requests already sent, \<open>sent\<close> the log of posted requests.
\<close>

record net =
  respond :: "(pystr \<times> (pystr \<times> pyval) list) list \<Rightarrow> pystr \<Rightarrow> (pystr \<times> pyval) list \<Rightarrow> error + pyval"
  sent :: "(pystr \<times> (pystr \<times> pyval) list) list"

definition requests_post ::
  "pystr \<Rightarrow> (pystr \<times> pyval) list \<Rightarrow> net \<Rightarrow> (error + pyval) \<times> net" where
  "requests_post url data n = (respond n (sent n) url data, n\<lparr>sent := sent n @ [(url, data)]\<rparr>)"

definition domain :: pystr where
  "domain = str ''https://payeer.com/''"

definition merchant_url :: pystr where
  "merchant_url = domain @ str ''merchant/?''"

definition api_url :: pystr where
  "api_url = domain @ str ''ajax/api/api.php''"

subsection \<open>\<open>WalletValidator\<close>\<close>

text \<open>
  Django's \<open>RegexValidator\<close> calls \<open>regex.search(str(value))\<close> and raises
  \<open>ValidationError\<close> when nothing matches. The pattern is \<open>P\d{7,12}$\<close>: the search tries
  every start position, and \<open>$\<close> matches at the end of the string and before a newline
  that ends it.
\<close>

definition re_digit :: "(nat \<Rightarrow> bool) \<Rightarrow> nat \<Rightarrow> bool" where
  "re_digit nd c = (if c < 0x80 then 0x30 \<le> c \<and> c \<le> 0x39 else nd c)"

definition at_end :: "pystr \<Rightarrow> bool" where
  "at_end s = (s = [] \<or> s = [0x0A])"

definition digits_then_end :: "(nat \<Rightarrow> bool) \<Rightarrow> pystr \<Rightarrow> nat \<Rightarrow> bool" where
  "digits_then_end nd s k =
     (k \<le> length s \<and> list_all (re_digit nd) (take k s) \<and> at_end (drop k s))"

fun match_here :: "(nat \<Rightarrow> bool) \<Rightarrow> pystr \<Rightarrow> bool" where
  "match_here nd [] = False"
| "match_here nd (c # r) = (c = 0x50 \<and> list_ex (digits_then_end nd r) [7 ..< 13])"

fun re_search :: "(nat \<Rightarrow> bool) \<Rightarrow> pystr \<Rightarrow> bool" where
  "re_search nd [] = False"
| "re_search nd (c # r) = (match_here nd (c # r) \<or> re_search nd r)"

definition validate_wallet :: "(nat \<Rightarrow> bool) \<Rightarrow> pystr \<Rightarrow> error + unit" where
  "validate_wallet nd wallet =
     (if re_search nd wallet then Inr () else Inl (ValidationError wallet))"

subsection \<open>\<open>get_client_ip\<close>\<close>

record request =
  META :: "(pystr \<times> pystr) list"
  POST :: "(pystr \<times> pystr) list"

text \<open>\<open>META.get(key)\<close> is a string or \<open>None\<close>; \<open>if value:\<close> holds for a non-empty string.\<close>

definition truthy_str :: "pystr option \<Rightarrow> bool" where
  "truthy_str v = (case v of None \<Rightarrow> False | Some s \<Rightarrow> s \<noteq> [])"

definition get_client_ip :: "request \<Rightarrow> pystr option" where
  "get_client_ip req =
     (let x_forwarded_for = map_of (META req) (str ''HTTP_X_FORWARDED_FOR'')
      in if truthy_str x_forwarded_for
         then map_option (\<lambda>x. strip (last (split_on 0x2C x))) x_forwarded_for
         else if truthy_str (map_of (META req) (str ''HTTP_X_REAL_IP''))
         then map_of (META req) (str ''HTTP_X_REAL_IP'')
         else map_of (META req) (str ''REMOTE_ADDR''))"

subsection \<open>\<open>generate_description\<close> and \<open>generate_signature\<close>\<close>

definition generate_description :: "pyval \<Rightarrow> error + pystr" where
  "generate_description description =
     (case description of
        PStr s \<Rightarrow>
          bnd (utf8_encode s) (\<lambda>bs.
            case utf8_decode (b64encode bs) of
              None \<Rightarrow> Inl UnicodeDecodeError
            | Some text \<Rightarrow> Inr text)
      | _ \<Rightarrow> Inl AttributeError)"

definition generate_signature :: "pyval \<Rightarrow> error + pystr" where
  "generate_signature params =
     bnd (py_iter params) (\<lambda>items.
     bnd (str_items items) (\<lambda>fields.
     bnd (utf8_encode (join (str '':'') fields)) (\<lambda>bs.
     Inr (py_upper (hexdigest (sha256 bs))))))"

subsection \<open>\<open>merchant\<close>\<close>

record merchant_result =
  location :: pystr
  signature :: pystr
  description :: pyval
  params :: "(pystr \<times> pyval) list"

definition merchant ::
  "env \<Rightarrow> payeer_api \<Rightarrow> pyval \<Rightarrow> pyval \<Rightarrow> pyval \<Rightarrow> pyval \<Rightarrow> pyval \<Rightarrow> (pystr \<times> pyval) list
   \<Rightarrow> net \<Rightarrow> (error + merchant_result) \<times> net" where
  "merchant env self order_id amount currency descr language kwargs n =
     (bnd (validate_wallet (unicode_digit env) (account self)) (\<lambda>_.
      let language = (if language = PNone then default_language env else language);
          data = cleaned_data (form_field env)
                   [(str ''order_id'', order_id), (str ''amount'', amount),
                    (str ''currency'', currency), (str ''description'', descr),
                    (str ''language'', language)]
      in
      bnd (generate_description (dict_get data (str ''description'') (PStr []))) (\<lambda>desc_str.
      bnd (dict_item data (str ''order_id'')) (\<lambda>d_order_id.
      bnd (dict_item data (str ''amount'')) (\<lambda>d_amount.
      bnd (dict_item data (str ''currency'')) (\<lambda>d_currency.
      bnd (generate_signature
             (PList [PStr (merchant_id self), d_order_id, d_amount, d_currency, PStr desc_str,
                     PStr (merchant_secret_key self)])) (\<lambda>sig.
      bnd (dict_item data (str ''language'')) (\<lambda>d_language.
      let ps = dict_update
                 [(str ''m_shop'', PStr (merchant_id self)), (str ''m_orderid'', d_order_id),
                  (str ''m_amount'', d_amount), (str ''m_curr'', d_currency),
                  (str ''m_desc'', PStr desc_str), (str ''m_sign'', PStr sig),
                  (str ''m_process'', PStr (str ''send'')), (str ''lang'', d_language)]
                 kwargs
      in
      bnd (urlencode env ps) (\<lambda>query.
      Inr \<lparr>location = merchant_url @ query, signature = sig, description = descr,
           params = ps\<rparr>)))))))),
      n)"

subsection \<open>\<open>merchant_handler\<close>\<close>

definition needed_params :: "pystr list" where
  "needed_params = map str
     [''m_operation_id'', ''m_operation_ps'', ''m_operation_date'', ''m_operation_pay_date'',
      ''m_shop'', ''m_orderid'', ''m_amount'', ''m_curr'', ''m_desc'', ''m_status'']"

text \<open>\<open>xs.append(x)\<close> changes the list and returns \<open>None\<close>: the new list and the value.\<close>

definition list_append :: "pyval list \<Rightarrow> pyval \<Rightarrow> pyval list \<times> pyval" where
  "list_append xs x = (xs @ [x], PNone)"

definition received_params :: "request \<Rightarrow> (pystr \<times> pystr) list" where
  "received_params req =
     (let received = fold (\<lambda>name d. dict_set d name (dict_get (POST req) name [])) needed_params [];
          m_params = dict_get (POST req) (str ''m_params'') []
      in if m_params \<noteq> [] then dict_set received (str ''m_params'') m_params else received)"

definition merchant_handler ::
  "env \<Rightarrow> payeer_api \<Rightarrow> request \<Rightarrow> error + (bool \<times> (pystr \<times> pystr) list \<times> pystr)" where
  "merchant_handler env self req =
     (if (case get_client_ip req of None \<Rightarrow> False | Some ip \<Rightarrow> ip \<in> set (allowed_ips env))
      then
        (let received = received_params req;
             params_for_sign =
               snd (list_append (map (\<lambda>kv. PStr (snd kv)) received)
                      (PStr (merchant_secret_key self)))
         in
         bnd (generate_signature params_for_sign) (\<lambda>sign.
         bnd (dict_item received (str ''m_operation_id'')) (\<lambda>operation_id.
         bnd (if operation_id \<noteq> []
              then bnd (dict_item received (str ''m_sign'')) (\<lambda>m_sign.
                   if sign = m_sign
                   then bnd (dict_item received (str ''m_status'')) (\<lambda>status.
                        Inr (status = str ''success''))
                   else Inr False)
              else Inr False) (\<lambda>accepted.
         bnd (dict_item received (str ''m_orderid'')) (\<lambda>orderid.
         if accepted
         then Inr (True, received, orderid @ str ''|success'')
         else Inr (False, received, orderid @ str ''|error''))))))
      else Inl (PayeerAPIException (PStr (str ''Wrong request IP''))))"

subsection \<open>\<open>request_api\<close> and the actions\<close>

definition api_data :: "payeer_api \<Rightarrow> (pystr \<times> pyval) list \<Rightarrow> (pystr \<times> pyval) list" where
  "api_data self ps =
     dict_update ps
       [(str ''account'', PStr (account self)), (str ''apiId'', PStr (api_id self)),
        (str ''apiPass'', PStr (api_pass self))]"

definition api_response :: "pyval \<Rightarrow> error + pyval" where
  "api_response response =
     bnd (py_get response (str ''errors'') PNone) (\<lambda>errors.
     if py_bool errors then Inl (PayeerAPIException errors) else Inr response)"

definition request_api ::
  "payeer_api \<Rightarrow> (pystr \<times> pyval) list \<Rightarrow> net \<Rightarrow> (error + pyval) \<times> net" where
  "request_api self ps n =
     (case requests_post api_url (api_data self ps) n of
        (r, n') \<Rightarrow> (bnd r api_response, n'))"

definition get_balance :: "payeer_api \<Rightarrow> net \<Rightarrow> (error + pyval) \<times> net" where
  "get_balance self n =
     (case request_api self [(str ''action'', PStr (str ''balance''))] n of
        (r, n') \<Rightarrow> (bnd r (\<lambda>response. py_item response (str ''balance'')), n'))"

definition check_user :: "payeer_api \<Rightarrow> pyval \<Rightarrow> net \<Rightarrow> (error + bool) \<times> net" where
  "check_user self user n =
     (case request_api self [(str ''action'', PStr (str ''checkUser'')), (str ''user'', user)] n of
        (r, n') \<Rightarrow>
          (case r of
             Inl (PayeerAPIException _) \<Rightarrow> Inr False
           | Inl e \<Rightarrow> Inl e
           | Inr _ \<Rightarrow> Inr True,
           n'))"

definition get_exchange_rate :: "payeer_api \<Rightarrow> pyval \<Rightarrow> net \<Rightarrow> (error + pyval) \<times> net" where
  "get_exchange_rate self output n =
     (case request_api self
             [(str ''action'', PStr (str ''getExchangeRate'')), (str ''output'', output)] n of
        (r, n') \<Rightarrow> (bnd r (\<lambda>response. py_item response (str ''rate'')), n'))"

definition get_pay_systems :: "payeer_api \<Rightarrow> net \<Rightarrow> (error + pyval) \<times> net" where
  "get_pay_systems self n =
     (case request_api self [(str ''action'', PStr (str ''getPaySystems''))] n of
        (r, n') \<Rightarrow> (bnd r (\<lambda>response. py_item response (str ''list'')), n'))"

definition get_history_info :: "payeer_api \<Rightarrow> pyval \<Rightarrow> net \<Rightarrow> (error + pyval) \<times> net" where
  "get_history_info self history_id n =
     (case request_api self
             [(str ''action'', PStr (str ''historyInfo'')), (str ''historyId'', history_id)] n of
        (r, n') \<Rightarrow> (bnd r (\<lambda>response. py_item response (str ''info'')), n'))"

definition shop_order_info :: "payeer_api \<Rightarrow> pyval \<Rightarrow> pyval \<Rightarrow> net \<Rightarrow> (error + pyval) \<times> net" where
  "shop_order_info self shop_id order_id n =
     request_api self
       [(str ''action'', PStr (str ''shopOrderInfo'')), (str ''shopId'', shop_id),
        (str ''orderId'', order_id)] n"

definition transfer_data ::
  "pyval \<Rightarrow> pystr \<Rightarrow> pyval \<Rightarrow> pyval \<Rightarrow> pyval \<Rightarrow> pyval \<Rightarrow> pyval \<Rightarrow> pyval \<Rightarrow> (pystr \<times> pyval) list" where
  "transfer_data sum_arg to cur_in cur_out comment protect protect_period protect_code =
     (let data = [(str ''action'', PStr (str ''transfer'')), (str ''sum'', sum_arg),
                  (str ''to'', PStr to), (str ''curIn'', cur_in), (str ''curOut'', cur_out)];
          data = (if comment \<noteq> PNone then dict_set data (str ''comment'') comment else data);
          data = (if protect \<noteq> PNone
                  then (let data = dict_set data (str ''protect'') protect;
                            data = (if protect_period \<noteq> PNone
                                    then dict_set data (str ''protectPeriod'') protect_period
                                    else data)
                        in if protect_code \<noteq> PNone
                           then dict_set data (str ''protectCode'') protect_code
                           else data)
                  else data)
      in data)"

definition transfer ::
  "env \<Rightarrow> payeer_api \<Rightarrow> pyval \<Rightarrow> pystr \<Rightarrow> pyval \<Rightarrow> pyval \<Rightarrow> pyval \<Rightarrow> pyval \<Rightarrow> pyval \<Rightarrow> pyval
   \<Rightarrow> net \<Rightarrow> (error + bool) \<times> net" where
  "transfer env self sum_arg to cur_in cur_out comment protect protect_period protect_code n =
     (case validate_wallet (unicode_digit env) to of
        Inl e \<Rightarrow> (Inl e, n)
      | Inr _ \<Rightarrow>
          (case request_api self
                  (transfer_data sum_arg to cur_in cur_out comment protect protect_period protect_code)
                  n of
             (r, n') \<Rightarrow>
               (bnd r (\<lambda>response.
                bnd (py_get response (str ''historyId'') (PInt 0)) py_gt0),
                n')))"

definition output_data ::
  "pystr \<Rightarrow> pyval \<Rightarrow> pyval \<Rightarrow> pyval \<Rightarrow> pyval \<Rightarrow> pyval \<Rightarrow> (pystr \<times> pyval) list" where
  "output_data action ps ps_account sum_in cur_in cur_out =
     [(str ''action'', PStr action), (str ''ps'', ps), (str ''param_ACCOUNT_NUMBER'', ps_account),
      (str ''sumIn'', sum_in), (str ''curIn'', cur_in), (str ''curOut'', cur_out)]"

definition check_output ::
  "payeer_api \<Rightarrow> pyval \<Rightarrow> pyval \<Rightarrow> pyval \<Rightarrow> pyval \<Rightarrow> pyval \<Rightarrow> net \<Rightarrow> (error + bool) \<times> net" where
  "check_output self ps ps_account sum_in cur_in cur_out n =
     (case request_api self
             (output_data (str ''initOutput'') ps ps_account sum_in cur_in cur_out) n of
        (r, n') \<Rightarrow>
          (case r of
             Inl (PayeerAPIException _) \<Rightarrow> Inr False
           | Inl e \<Rightarrow> Inl e
           | Inr _ \<Rightarrow> Inr True,
           n'))"

definition output_action ::
  "payeer_api \<Rightarrow> pyval \<Rightarrow> pyval \<Rightarrow> pyval \<Rightarrow> pyval \<Rightarrow> pyval \<Rightarrow> net \<Rightarrow> (error + pyval) \<times> net" where
  "output_action self ps ps_account sum_in cur_in cur_out n =
     request_api self (output_data (str ''output'') ps ps_account sum_in cur_in cur_out) n"

definition history :: "payeer_api \<Rightarrow> (pystr \<times> pyval) list \<Rightarrow> net \<Rightarrow> (error + pyval) \<times> net" where
  "history self ps n =
     (case request_api self (dict_set ps (str ''action'') (PStr (str ''history''))) n of
        (r, n') \<Rightarrow> (bnd r (\<lambda>response. py_item response (str ''history'')), n'))"

subsection \<open>A configuration for the examples\<close>

text \<open>
  The examples run the model on a concrete configuration: \<open>urlencode\<close> on text values
  (\<open>quote_plus\<close> of keys and values, joined by \<open>&\<close>), the form of the spec with three
  currencies and two languages, two allowed addresses.
\<close>

definition quote_plus :: "pystr \<Rightarrow> error + pystr" where
  "quote_plus s =
     bnd (utf8_encode s) (\<lambda>bs.
       Inr (concat (map (\<lambda>b.
         let c = unat b
         in if (0x30 \<le> c \<and> c \<le> 0x39) \<or> (0x41 \<le> c \<and> c \<le> 0x5A) \<or> (0x61 \<le> c \<and> c \<le> 0x7A)
               \<or> c = 0x5F \<or> c = 0x2E \<or> c = 0x2D \<or> c = 0x7E
            then [c]
            else if c = 0x20 then [0x2B]
            else [0x25] @ py_upper [hex_char (c div 16), hex_char (c mod 16)]) bs)))"

fun urlencode_pairs :: "(pystr \<times> pyval) list \<Rightarrow> error + pystr list" where
  "urlencode_pairs [] = Inr []"
| "urlencode_pairs ((k, PStr v) # r) =
     bnd (quote_plus k) (\<lambda>qk.
     bnd (quote_plus v) (\<lambda>qv.
     bnd (urlencode_pairs r) (\<lambda>qs. Inr ((qk @ str ''='' @ qv) # qs))))"
| "urlencode_pairs (_ # r) = Inl TypeError"

definition urlencode_text :: "(pystr \<times> pyval) list \<Rightarrow> error + pystr" where
  "urlencode_text d = bnd (urlencode_pairs d) (\<lambda>qs. Inr (join (str ''&'') qs))"

definition example_env :: env where
  "example_env =
     \<lparr>unicode_digit = (\<lambda>c. False),
      allowed_ips = [str ''185.71.65.92'', str ''185.71.65.189''],
      default_language = PStr (str ''ru''),
      form_field = merchant_form [str ''USD'', str ''EUR'', str ''RUB''] [str ''ru'', str ''en''],
      urlencode = urlencode_text\<rparr>"

definition example_api :: payeer_api where
  "example_api =
     \<lparr>account = str ''P1000000'', api_id = str ''12345'', api_pass = str ''pass'',
      merchant_id = str ''777'', merchant_secret_key = str ''secret''\<rparr>"

text \<open>A remote service that answers every request with the same body.\<close>

definition answering :: "pyval \<Rightarrow> net" where
  "answering body = \<lparr>respond = (\<lambda>log url data. Inr body), sent = []\<rparr>"

chapter \<open>Properties\<close>

section \<open>Error propagation\<close>

lemma bnd_Inl [simp]: "bnd (Inl e) f = Inl e"
  by (simp add: bnd_def)

lemma bnd_Inr [simp]: "bnd (Inr x) f = f x"
  by (simp add: bnd_def)

section \<open>Bytes\<close>

lemma unat_byte: "n < 256 \<Longrightarrow> unat (byte_of n) = n"
  by (simp add: byte_of_def unat_of_nat)

lemma byte_unat: "byte_of (unat b) = b"
  by (simp add: byte_of_def)

lemma unat_byte_lt: "unat (b :: byte) < 256"
  using unsigned_less [of b, where ?'a = nat] by simp

section \<open>UTF-8 decodes what it encodes\<close>

lemma base64_steps2: "x * 64 + y = z \<Longrightarrow> z * 64 + w = (c::nat) \<Longrightarrow> x * 4096 + y * 64 + w = c"
  by auto

lemma three_sextets: "(c::nat) div 4096 * 4096 + c div 64 mod 64 * 64 + c mod 64 = c"
proof -
  have e: "c div 4096 = c div 64 div 64" by (simp add: div_mult2_eq [symmetric])
  have a: "c div 64 div 64 * 64 + c div 64 mod 64 = c div 64" by (rule div_mult_mod_eq)
  have b: "c div 64 * 64 + c mod 64 = c" by (rule div_mult_mod_eq)
  show ?thesis unfolding e using a b by (rule base64_steps2)
qed

lemma base64_steps3:
  "x * 64 + y = z \<Longrightarrow> z * 64 + w = v \<Longrightarrow> v * 64 + u = (c::nat)
   \<Longrightarrow> x * 262144 + y * 4096 + w * 64 + u = c"
  by auto

lemma four_sextets:
  "(c::nat) div 262144 * 262144 + c div 4096 mod 64 * 4096 + c div 64 mod 64 * 64 + c mod 64 = c"
proof -
  have e: "c div 4096 = c div 64 div 64" "c div 262144 = c div 64 div 64 div 64"
    by (simp_all add: div_mult2_eq [symmetric])
  have a: "c div 64 div 64 div 64 * 64 + c div 64 div 64 mod 64 = c div 64 div 64"
    by (rule div_mult_mod_eq)
  have a': "c div 64 div 64 * 64 + c div 64 mod 64 = c div 64" by (rule div_mult_mod_eq)
  have b: "c div 64 * 64 + c mod 64 = c" by (rule div_mult_mod_eq)
  show ?thesis unfolding e using a a' b by (rule base64_steps3)
qed

lemma utf8_decode_1:
  "c < 0x80 \<Longrightarrow> utf8_decode (byte_of c # bs) = map_option (Cons c) (utf8_decode bs)"
  by (simp add: unat_byte)

lemma utf8_decode_2:
  assumes "0x80 \<le> c" "c < 0x800"
  shows "utf8_decode (byte_of (0xC0 + c div 64) # byte_of (0x80 + c mod 64) # bs)
         = map_option (Cons c) (utf8_decode bs)"
proof -
  have u: "unat (byte_of (0xC0 + c div 64)) = 0xC0 + c div 64"
    "unat (byte_of (0x80 + c mod 64)) = 0x80 + c mod 64"
    using assms by (simp_all add: unat_byte)
  have r: "0xC2 \<le> 0xC0 + c div 64" "0xC0 + c div 64 < 0xE0" using assms by simp_all
  show ?thesis using r by (simp add: u is_cont_def)
qed

lemma utf8_decode_3:
  assumes "0x800 \<le> c" "c < 0x10000" "scalar_value c"
  shows "utf8_decode (byte_of (0xE0 + c div 4096) # byte_of (0x80 + c div 64 mod 64)
            # byte_of (0x80 + c mod 64) # bs)
         = map_option (Cons c) (utf8_decode bs)"
proof -
  have u: "unat (byte_of (0xE0 + c div 4096)) = 0xE0 + c div 4096"
    "unat (byte_of (0x80 + c div 64 mod 64)) = 0x80 + c div 64 mod 64"
    "unat (byte_of (0x80 + c mod 64)) = 0x80 + c mod 64"
    using assms by (simp_all add: unat_byte)
  have r: "0xE0 + c div 4096 < 0xF0" using assms by simp
  show ?thesis using r assms by (simp add: u is_cont_def three_sextets)
qed

lemma utf8_decode_4:
  assumes "0x10000 \<le> c" "c < 0x110000"
  shows "utf8_decode (byte_of (0xF0 + c div 262144) # byte_of (0x80 + c div 4096 mod 64)
            # byte_of (0x80 + c div 64 mod 64) # byte_of (0x80 + c mod 64) # bs)
         = map_option (Cons c) (utf8_decode bs)"
proof -
  have u: "unat (byte_of (0xF0 + c div 262144)) = 0xF0 + c div 262144"
    "unat (byte_of (0x80 + c div 4096 mod 64)) = 0x80 + c div 4096 mod 64"
    "unat (byte_of (0x80 + c div 64 mod 64)) = 0x80 + c div 64 mod 64"
    "unat (byte_of (0x80 + c mod 64)) = 0x80 + c mod 64"
    using assms by (simp_all add: unat_byte)
  have r: "0xF0 + c div 262144 < 0xF5" using assms by simp
  show ?thesis using r assms by (simp add: u is_cont_def four_sextets)
qed

lemma utf8_decode_char:
  assumes "scalar_value c"
  shows "utf8_decode (utf8_char c @ bs) = map_option (Cons c) (utf8_decode bs)"
proof -
  have "c < 0x110000" using assms by (auto simp: scalar_value_def)
  then consider "c < 0x80" | "0x80 \<le> c" "c < 0x800" | "0x800 \<le> c" "c < 0x10000"
    | "0x10000 \<le> c" "c < 0x110000"
    by linarith
  then show ?thesis
  proof cases
    case 1
    then show ?thesis by (simp add: utf8_char_def utf8_decode_1 del: utf8_decode.simps)
  next
    case 2
    then show ?thesis by (simp add: utf8_char_def utf8_decode_2 del: utf8_decode.simps)
  next
    case 3
    then show ?thesis using assms
      by (simp add: utf8_char_def utf8_decode_3 del: utf8_decode.simps)
  next
    case 4
    then show ?thesis by (simp add: utf8_char_def utf8_decode_4 del: utf8_decode.simps)
  qed
qed

lemma utf8_roundtrip:
  "list_all scalar_value s \<Longrightarrow> \<exists>bs. utf8_encode s = Inr bs \<and> utf8_decode bs = Some s"
proof (induction s)
  case Nil
  then show ?case by simp
next
  case (Cons c cs)
  then obtain bs where "utf8_encode cs = Inr bs" "utf8_decode bs = Some cs" by auto
  with Cons.prems show ?case
    by (simp add: utf8_decode_char del: utf8_decode.simps)
qed

section \<open>Base64 decodes what it encodes\<close>

lemma b64_index_char: "i < 64 \<Longrightarrow> b64_index (b64_char i) = Some i"
  by (auto simp: b64_index_def b64_char_def unat_byte Let_def)

lemma b64_pad_index: "b64_index 0x3D = None"
  by (simp add: b64_index_def)

lemma b64_char_not_pad: "i < 64 \<Longrightarrow> b64_char i \<noteq> 0x3D"
  using b64_index_char [of i] b64_pad_index by auto

lemma b64encode_Nil: "b64encode bs = [] \<longleftrightarrow> bs = []"
  by (cases bs rule: b64encode.cases) simp_all

lemma sextet_bounds:
  fixes a b c :: nat
  assumes "a < 256" "b < 256" "c < 256"
  shows "a div 4 < 64" "a mod 4 * 16 + b div 16 < 64" "b mod 16 * 4 + c div 64 < 64"
    "c mod 64 < 64" "a mod 4 * 16 < 64" "b mod 16 * 4 < 64"
proof -
  have m: "a mod 4 * 16 \<le> 48" "b mod 16 * 4 \<le> 60"
    using mod_less_divisor [of 4 a] mod_less_divisor [of 16 b] by simp_all
  have d: "b div 16 < 16" "c div 64 < 4" using assms by simp_all
  show "a div 4 < 64" using assms by simp
  show "a mod 4 * 16 + b div 16 < 64" using m d by linarith
  show "b mod 16 * 4 + c div 64 < 64" using m d by linarith
  show "c mod 64 < 64" by simp
  show "a mod 4 * 16 < 64" using m by linarith
  show "b mod 16 * 4 < 64" using m by linarith
qed

lemma octet_a:
  fixes a b :: nat
  assumes "b < 256"
  shows "a div 4 * 4 + (a mod 4 * 16 + b div 16) div 16 = a"
proof -
  have "b div 16 < 16" using assms by simp
  then have "(a mod 4 * 16 + b div 16) div 16 = a mod 4" by simp
  then show ?thesis by simp
qed

lemma octet_a0: "(a::nat) div 4 * 4 + a mod 4 * 16 div 16 = a" "(a::nat) mod 4 * 16 mod 16 = 0"
  by simp_all

lemma octet_b:
  fixes a b c :: nat
  assumes "b < 256" "c < 256"
  shows "(a mod 4 * 16 + b div 16) mod 16 * 16 + (b mod 16 * 4 + c div 64) div 4 = b"
proof -
  have "b div 16 < 16" using assms by simp
  then have x: "(a mod 4 * 16 + b div 16) mod 16 = b div 16" by simp
  have "c div 64 < 4" using assms by simp
  then have y: "(b mod 16 * 4 + c div 64) div 4 = b mod 16" by simp
  show ?thesis unfolding x y by simp
qed

lemma octet_b0:
  fixes a b :: nat
  assumes "b < 256"
  shows "(a mod 4 * 16 + b div 16) mod 16 * 16 + b mod 16 * 4 div 4 = b"
    "b mod 16 * 4 mod 4 = 0"
proof -
  have "b div 16 < 16" using assms by simp
  then have x: "(a mod 4 * 16 + b div 16) mod 16 = b div 16" by simp
  show "(a mod 4 * 16 + b div 16) mod 16 * 16 + b mod 16 * 4 div 4 = b"
    unfolding x by simp
  show "b mod 16 * 4 mod 4 = 0" by simp
qed

lemma octet_c:
  fixes b c :: nat
  assumes "c < 256"
  shows "(b mod 16 * 4 + c div 64) mod 4 * 64 + c mod 64 = c"
proof -
  have "c div 64 < 4" using assms by simp
  then have "(b mod 16 * 4 + c div 64) mod 4 = c div 64" by simp
  then show ?thesis by simp
qed

lemma b64_quad_full:
  assumes "i0 < 64" "i1 < 64" "i2 < 64" "i3 < 64"
  shows "b64_quad (b64_char i0) (b64_char i1) (b64_char i2) (b64_char i3) final
         = Some [byte_of (i0 * 4 + i1 div 16), byte_of (i1 mod 16 * 16 + i2 div 4),
                 byte_of (i2 mod 4 * 64 + i3)]"
  using assms by (simp add: b64_quad_def b64_index_char b64_char_not_pad)

lemma b64_quad_pad1:
  assumes "i0 < 64" "i1 < 64" "i2 < 64" "i2 mod 4 = 0"
  shows "b64_quad (b64_char i0) (b64_char i1) (b64_char i2) 0x3D True
         = Some [byte_of (i0 * 4 + i1 div 16), byte_of (i1 mod 16 * 16 + i2 div 4)]"
  using assms by (simp add: b64_quad_def b64_index_char b64_char_not_pad)

lemma b64_quad_pad2:
  assumes "i0 < 64" "i1 < 64" "i1 mod 16 = 0"
  shows "b64_quad (b64_char i0) (b64_char i1) 0x3D 0x3D True
         = Some [byte_of (i0 * 4 + i1 div 16)]"
  using assms by (simp add: b64_quad_def b64_index_char)

lemma b64_quad3:
  "b64_quad (b64_char (unat a div 4)) (b64_char (unat a mod 4 * 16 + unat b div 16))
     (b64_char (unat b mod 16 * 4 + unat c div 64)) (b64_char (unat c mod 64)) final
   = Some [a, b, c]"
proof -
  note lt = unat_byte_lt [of a] unat_byte_lt [of b] unat_byte_lt [of c]
  note i = sextet_bounds [OF lt]
  show ?thesis
    unfolding b64_quad_full [OF i(1) i(2) i(3) i(4)]
      octet_a [OF lt(2)] octet_b [OF lt(2) lt(3)] octet_c [OF lt(3)] byte_unat ..
qed

lemma b64_quad2:
  "b64_quad (b64_char (unat a div 4)) (b64_char (unat a mod 4 * 16 + unat b div 16))
     (b64_char (unat b mod 16 * 4)) 0x3D True = Some [a, b]"
proof -
  note lt = unat_byte_lt [of a] unat_byte_lt [of b] unat_byte_lt [of b]
  note i = sextet_bounds [OF lt]
  show ?thesis
    unfolding b64_quad_pad1 [OF i(1) i(2) i(6) octet_b0(2) [OF lt(2)]]
      octet_a [OF lt(2)] octet_b0(1) [OF lt(2)] byte_unat ..
qed

lemma b64_quad1:
  "b64_quad (b64_char (unat a div 4)) (b64_char (unat a mod 4 * 16)) 0x3D 0x3D True = Some [a]"
proof -
  note lt = unat_byte_lt [of a] unat_byte_lt [of a] unat_byte_lt [of a]
  note i = sextet_bounds [OF lt]
  show ?thesis
    unfolding b64_quad_pad2 [OF i(1) i(5) octet_a0(2)] octet_a0(1) byte_unat ..
qed

lemma b64_roundtrip: "b64decode (b64encode bs) = Some bs"
proof (induction bs rule: b64encode.induct)
  case 1
  then show ?case by simp
next
  case (2 a)
  then show ?case by (simp add: b64_quad1)
next
  case (3 a b)
  then show ?case by (simp add: b64_quad2)
next
  case (4 a b c rest)
  then show ?case by (simp add: b64_quad3)
qed

lemma b64_char_ascii: "unat (b64_char i) < 0x80"
proof -
  define n where "n = (if i < 26 then 65 + i else if i < 52 then 71 + i
            else if i < 62 then i - 4 else if i = 62 then 43 else 47)"
  have "n < 0x80" by (auto simp: n_def)
  then have "unat (byte_of n) < 0x80" by (simp add: unat_byte)
  moreover have "b64_char i = byte_of n" by (simp add: b64_char_def n_def)
  ultimately show ?thesis by simp
qed

lemma b64encode_ascii: "list_all (\<lambda>b. unat b < 0x80) (b64encode bs)"
  by (induction bs rule: b64encode.induct) (simp_all add: b64_char_ascii)

lemma utf8_decode_ascii:
  "list_all (\<lambda>b. unat b < 0x80) bs \<Longrightarrow> utf8_decode bs = Some (map unat bs)"
  by (induction bs) simp_all

lemma utf8_encode_ascii:
  "list_all (\<lambda>b. unat b < 0x80) bs \<Longrightarrow> utf8_encode (map unat bs) = Inr bs"
  by (induction bs) (simp_all add: scalar_value_def utf8_char_def byte_unat)

lemma generate_description_text:
  assumes "utf8_encode s = Inr bs"
  shows "generate_description (PStr s) = Inr (map unat (b64encode bs))"
  using assms by (simp add: generate_description_def utf8_decode_ascii b64encode_ascii)

text \<open>
  C9. For every text (a string of Unicode scalar values, the empty string and characters of
  several bytes included), \<open>generate_description\<close> returns a string, and base64-decoding
  that string and reading the bytes as UTF-8 gives the text back.
\<close>

theorem generate_description_roundtrip:
  assumes "list_all scalar_value s"
  shows "\<exists>e. generate_description (PStr s) = Inr e \<and> b64decode_text e = Some s"
proof -
  from assms obtain bs where bs: "utf8_encode s = Inr bs" "utf8_decode bs = Some s"
    using utf8_roundtrip by blast
  have "b64decode_text (map unat (b64encode bs)) = Some s"
    by (simp add: b64decode_text_def utf8_encode_ascii b64encode_ascii b64_roundtrip bs(2))
  with generate_description_text [OF bs(1)] show ?thesis by blast
qed

theorem generate_description_roundtrip_witness:
  "list_all scalar_value [] \<and> list_all scalar_value [0x20AC, 0x1F600, 0xE9, 0x41]
   \<and> (\<exists>e. generate_description (PStr []) = Inr e \<and> b64decode_text e = Some [])
   \<and> (\<exists>e. generate_description (PStr [0x20AC, 0x1F600, 0xE9, 0x41]) = Inr e
          \<and> b64decode_text e = Some [0x20AC, 0x1F600, 0xE9, 0x41])"
  using generate_description_roundtrip [of "[]"]
    generate_description_roundtrip [of "[0x20AC, 0x1F600, 0xE9, 0x41]"]
  by (simp add: scalar_value_def)

section \<open>The signature is 64 upper-case hexadecimal digits\<close>

lemma length_rounds: "length (rounds ks ws st) = length st"
  by (induction ks ws st rule: rounds.induct) (simp_all add: Let_def)

lemma length_compress: "length (compress st block) = length st"
  by (simp add: compress_def length_rounds)

lemma length_blocks: "length (blocks n st bs) = length st"
  by (induction n arbitrary: st bs) (simp_all add: length_compress)

lemma length_concat_be_bytes: "length (concat (map be_bytes ws)) = 4 * length ws"
  by (induction ws) (simp_all add: be_bytes_def)

lemma length_sha256: "length (sha256 m) = 32"
  by (simp add: sha256_def Let_def length_concat_be_bytes length_blocks sha256_h0_def)

lemma length_hexdigest: "length (hexdigest bs) = 2 * length bs"
  by (induction bs) (simp_all add: hexdigest_def)

lemma length_py_upper: "length (py_upper s) = length s"
  by (simp add: py_upper_def)

lemma upper_hex_char:
  assumes "d < 16"
  shows "upper_hex_digit (if 0x61 \<le> hex_char d \<and> hex_char d \<le> 0x7A then hex_char d - 0x20 else hex_char d)"
  using assms by (auto simp: upper_hex_digit_def hex_char_def)

lemma upper_hexdigest: "list_all upper_hex_digit (py_upper (hexdigest bs))"
proof (induction bs)
  case Nil
  then show ?case by (simp add: hexdigest_def py_upper_def)
next
  case (Cons b bs)
  have "unat b div 16 < 16" using unat_byte_lt [of b] by simp
  moreover have "unat b mod 16 < 16" by simp
  ultimately show ?case using Cons upper_hex_char
    by (simp add: hexdigest_def py_upper_def)
qed

lemma str_items_strs: "str_items (map PStr fs) = Inr fs"
  by (induction fs) simp_all

lemma scalar_join:
  "list_all scalar_value sep \<Longrightarrow> list_all (list_all scalar_value) fs
   \<Longrightarrow> list_all scalar_value (join sep fs)"
  by (induction sep fs rule: join.induct) simp_all

lemma scalar_colon: "list_all scalar_value (str '':'')"
  by (simp add: str_def scalar_value_def)

text \<open>Three digests, computed by the model and equal to the ones the code produces.\<close>

lemma sha256_ab:
  "sha256 [97, 58, 98] =
     [103, 131, 163, 30, 171, 246, 140, 204, 6, 96, 249, 53, 192, 130, 98, 130, 189, 210, 36,
      31, 58, 128, 169, 242, 209, 13, 89, 174, 169, 235, 181, 216]"
  by code_simp

lemma sha256_ba:
  "sha256 [98, 58, 97] =
     [137, 179, 97, 120, 78, 161, 146, 9, 47, 135, 90, 125, 251, 151, 248, 93, 234, 93, 112,
      178, 59, 200, 18, 223, 28, 135, 235, 83, 87, 28, 191, 48]"
  by code_simp

lemma sha256_example:
  "sha256 [55, 55, 55, 58, 49, 48, 48, 49, 58, 49, 48, 46, 48, 48, 58, 85, 83, 68, 58, 86, 71,
           86, 122, 100, 67, 66, 118, 99, 109, 82, 108, 99, 103, 61, 61, 58, 115, 101, 99, 114,
           101, 116] =
     [214, 148, 112, 215, 203, 190, 191, 76, 127, 68, 215, 145, 50, 26, 9, 231, 119, 22, 245,
      179, 45, 97, 238, 228, 170, 81, 30, 224, 20, 135, 197, 253]"
  by code_simp

lemmas signature_eval =
  generate_signature_def str_def scalar_value_def utf8_char_def byte_of_def hexdigest_def
  py_upper_def hex_char_def

lemma signature_ab:
  "generate_signature (PList [PStr (str ''a''), PStr (str ''b'')])
   = Inr (str ''6783A31EABF68CCC0660F935C0826282BDD2241F3A80A9F2D10D59AEA9EBB5D8'')"
  by (simp add: signature_eval sha256_ab)

lemma signature_ba:
  "generate_signature (PList [PStr (str ''b''), PStr (str ''a'')])
   = Inr (str ''89B361784EA192092F875A7DFB97F85DEA5D70B23BC812DF1C87EB53571CBF30'')"
  by (simp add: signature_eval sha256_ba)

lemma signature_example:
  "generate_signature
     (PList [PStr (str ''777''), PStr (str ''1001''), PStr (str ''10.00''), PStr (str ''USD''),
             PStr (str ''VGVzdCBvcmRlcg==''), PStr (str ''secret'')])
   = Inr (str ''D69470D7CBBEBF4C7F44D791321A09E77716F5B32D61EEE4AA511EE01487C5FD'')"
  by (simp add: signature_eval sha256_example)

lemma generate_signature_strs:
  assumes "list_all (list_all scalar_value) fs"
  shows "\<exists>bs. utf8_encode (join (str '':'') fs) = Inr bs
            \<and> generate_signature (PList (map PStr fs)) = Inr (py_upper (hexdigest (sha256 bs)))"
proof -
  have "list_all scalar_value (join (str '':'') fs)"
    using scalar_colon assms by (rule scalar_join)
  then obtain bs where bs: "utf8_encode (join (str '':'') fs) = Inr bs"
    using utf8_roundtrip by blast
  then have "generate_signature (PList (map PStr fs)) = Inr (py_upper (hexdigest (sha256 bs)))"
    by (simp add: generate_signature_def str_items_strs)
  with bs show ?thesis by blast
qed

lemma length_signature: "length (py_upper (hexdigest (sha256 bs))) = 64"
  by (simp add: length_py_upper length_hexdigest length_sha256)

text \<open>
  C1. \<open>generate_signature\<close> on a sequence of text fields joins them with a colon, encodes
  the result as UTF-8, hashes it with SHA-256 and renders the digest as 64 upper-case
  hexadecimal digits. Its value is fixed by the field sequence (it is a function of it, stated
  by the equation below), and the order of the fields matters: the fields \<open>a\<close> and \<open>b\<close>
  signed in the two possible orders give the two different SHA-256 digests that the code
  gives; so does the checkout example of the spec.
\<close>

theorem generate_signature_sha256_hex:
  "(list_all (list_all scalar_value) fs \<longrightarrow>
      (\<exists>bs. utf8_encode (join (str '':'') fs) = Inr bs
         \<and> generate_signature (PList (map PStr fs)) = Inr (py_upper (hexdigest (sha256 bs)))
         \<and> length (py_upper (hexdigest (sha256 bs))) = 64
         \<and> list_all upper_hex_digit (py_upper (hexdigest (sha256 bs)))))
   \<and> generate_signature (PList [PStr (str ''a''), PStr (str ''b'')])
       = Inr (str ''6783A31EABF68CCC0660F935C0826282BDD2241F3A80A9F2D10D59AEA9EBB5D8'')
   \<and> generate_signature (PList [PStr (str ''b''), PStr (str ''a'')])
       = Inr (str ''89B361784EA192092F875A7DFB97F85DEA5D70B23BC812DF1C87EB53571CBF30'')
   \<and> generate_signature
         (PList [PStr (str ''777''), PStr (str ''1001''), PStr (str ''10.00''),
                 PStr (str ''USD''), PStr (str ''VGVzdCBvcmRlcg==''), PStr (str ''secret'')])
       = Inr (str ''D69470D7CBBEBF4C7F44D791321A09E77716F5B32D61EEE4AA511EE01487C5FD'')
   \<and> generate_signature (PList [PStr (str ''a''), PStr (str ''b'')])
       \<noteq> generate_signature (PList [PStr (str ''b''), PStr (str ''a'')])"
proof (intro conjI impI)
  assume "list_all (list_all scalar_value) fs"
  from generate_signature_strs [OF this] obtain bs where
    "utf8_encode (join (str '':'') fs) = Inr bs"
    "generate_signature (PList (map PStr fs)) = Inr (py_upper (hexdigest (sha256 bs)))"
    by blast
  then show "\<exists>bs. utf8_encode (join (str '':'') fs) = Inr bs
         \<and> generate_signature (PList (map PStr fs)) = Inr (py_upper (hexdigest (sha256 bs)))
         \<and> length (py_upper (hexdigest (sha256 bs))) = 64
         \<and> list_all upper_hex_digit (py_upper (hexdigest (sha256 bs)))"
    using length_signature upper_hexdigest by blast
next
  show "generate_signature (PList [PStr (str ''a''), PStr (str ''b'')])
       \<noteq> generate_signature (PList [PStr (str ''b''), PStr (str ''a'')])"
    unfolding signature_ab signature_ba by (simp add: str_def)
qed (rule signature_ab signature_ba signature_example)+

theorem generate_signature_sha256_hex_witness:
  "list_all (list_all scalar_value) [str ''a'', str ''b'']
   \<and> generate_signature (PList (map PStr [str ''a'', str ''b'']))
       = Inr (str ''6783A31EABF68CCC0660F935C0826282BDD2241F3A80A9F2D10D59AEA9EBB5D8'')
   \<and> length (str ''6783A31EABF68CCC0660F935C0826282BDD2241F3A80A9F2D10D59AEA9EBB5D8'') = 64
   \<and> list_all upper_hex_digit
         (str ''6783A31EABF68CCC0660F935C0826282BDD2241F3A80A9F2D10D59AEA9EBB5D8'')"
proof -
  have h: "list_all (list_all scalar_value) [str ''a'', str ''b'']"
    by (simp add: str_def scalar_value_def)
  from generate_signature_sha256_hex [of "[str ''a'', str ''b'']"] h
  obtain bs where
    "generate_signature (PList (map PStr [str ''a'', str ''b'']))
       = Inr (py_upper (hexdigest (sha256 bs)))"
    "length (py_upper (hexdigest (sha256 bs))) = 64"
    "list_all upper_hex_digit (py_upper (hexdigest (sha256 bs)))"
    "generate_signature (PList [PStr (str ''a''), PStr (str ''b'')])
       = Inr (str ''6783A31EABF68CCC0660F935C0826282BDD2241F3A80A9F2D10D59AEA9EBB5D8'')"
    by blast
  then show ?thesis using h by simp
qed

section \<open>Dictionaries\<close>

lemma str_eq_iff [simp]: "str a = str b \<longleftrightarrow> a = b"
  by (simp add: str_def inj_map_eq_map [OF inj_of_char])

lemma map_of_dict_set: "map_of (dict_set d k v) = (map_of d)(k \<mapsto> v)"
  by (induction d) auto

lemma map_of_dict_update:
  "distinct (map fst e) \<Longrightarrow>
   map_of (dict_update d e) k = (case map_of e k of Some v \<Rightarrow> Some v | None \<Rightarrow> map_of d k)"
proof (induction e arbitrary: d)
  case Nil
  then show ?case by simp
next
  case (Cons kv e)
  obtain k' v' where kv: "kv = (k', v')" by (cases kv)
  from Cons.prems have d: "distinct (map fst e)" and n: "map_of e k' = None"
    by (simp_all add: kv map_of_eq_None_iff)
  show ?case
  proof (cases "k = k'")
    case True
    then show ?thesis using n Cons.IH [OF d, of "dict_set d k' v'"]
      by (simp add: kv map_of_dict_set split: option.splits)
  next
    case False
    then show ?thesis using Cons.IH [OF d, of "dict_set d k' v'"]
      by (simp add: kv map_of_dict_set split: option.splits)
  qed
qed

lemma dict_get_map_of: "dict_get d k dflt = (case map_of d k of None \<Rightarrow> dflt | Some v \<Rightarrow> v)"
  by (simp add: dict_get_def)

section \<open>The posted form\<close>

lemma api_data_lookup:
  "map_of (api_data self ps) k =
     (if k = str ''account'' then Some (PStr (account self))
      else if k = str ''apiId'' then Some (PStr (api_id self))
      else if k = str ''apiPass'' then Some (PStr (api_pass self))
      else map_of ps k)"
  by (simp add: api_data_def map_of_dict_set)

lemma sent_request_api:
  "sent (snd (request_api self ps n)) = sent n @ [(api_url, api_data self ps)]"
  by (simp add: request_api_def requests_post_def)

lemma fst_request_api:
  "fst (request_api self ps n) = bnd (respond n (sent n) api_url (api_data self ps)) api_response"
  by (simp add: request_api_def requests_post_def)

text \<open>
  C10. Every call of \<open>request_api\<close> posts one form to the API address, and in that form
  the keys \<open>account\<close>, \<open>apiId\<close> and \<open>apiPass\<close> hold the configured credentials, whatever
  the caller supplied under these keys; every other key holds what the caller supplied.
\<close>

theorem request_api_posts_credentials:
  "sent (snd (request_api self ps n)) = sent n @ [(api_url, api_data self ps)]
   \<and> map_of (api_data self ps) (str ''account'') = Some (PStr (account self))
   \<and> map_of (api_data self ps) (str ''apiId'') = Some (PStr (api_id self))
   \<and> map_of (api_data self ps) (str ''apiPass'') = Some (PStr (api_pass self))
   \<and> (\<forall>k. k \<noteq> str ''account'' \<and> k \<noteq> str ''apiId'' \<and> k \<noteq> str ''apiPass''
          \<longrightarrow> map_of (api_data self ps) k = map_of ps k)"
  by (simp add: sent_request_api api_data_lookup)

theorem request_api_posts_credentials_witness:
  "sent (snd (request_api example_api
                [(str ''action'', PStr (str ''balance'')), (str ''apiPass'', PStr (str ''mine''))]
                (answering (PDict []))))
   = [(api_url, [(str ''action'', PStr (str ''balance'')), (str ''apiPass'', PStr (str ''pass'')),
                 (str ''account'', PStr (str ''P1000000'')), (str ''apiId'', PStr (str ''12345''))])]
   \<and> map_of (api_data example_api
               [(str ''action'', PStr (str ''balance'')), (str ''apiPass'', PStr (str ''mine''))])
        (str ''action'') = Some (PStr (str ''balance''))"
  using request_api_posts_credentials
    [of example_api "[(str ''action'', PStr (str ''balance'')), (str ''apiPass'', PStr (str ''mine''))]"
      "answering (PDict [])"]
  by (simp add: api_data_def example_api_def answering_def)

section \<open>Responses of the remote service\<close>

lemma request_api_eq:
  "request_api self ps n =
     (bnd (respond n (sent n) api_url (api_data self ps)) api_response,
      n\<lparr>sent := sent n @ [(api_url, api_data self ps)]\<rparr>)"
  by (simp add: request_api_def requests_post_def)

lemma api_response_dict:
  "api_response (PDict body) =
     (if py_bool (dict_get body (str ''errors'') PNone)
      then Inl (PayeerAPIException (dict_get body (str ''errors'') PNone))
      else Inr (PDict body))"
  by (simp add: api_response_def)

lemma request_api_answer:
  assumes "\<And>data. respond n (sent n) api_url data = Inr (PDict body)"
  shows "fst (request_api self ps n) =
     (if py_bool (dict_get body (str ''errors'') PNone)
      then Inl (PayeerAPIException (dict_get body (str ''errors'') PNone))
      else Inr (PDict body))"
  by (simp add: request_api_eq assms api_response_dict)

text \<open>
  C6. When the remote service answers with a JSON object, \<open>request_api\<close> raises
  \<open>PayeerAPIException\<close> carrying the \<open>errors\<close> field if that field is present and true as
  a condition (non-empty), and returns the object otherwise. \<open>check_user\<close> and
  \<open>check_output\<close> return \<open>False\<close> in the first case and \<open>True\<close> in the second; every
  other action lets the exception pass.
\<close>

theorem request_api_errors:
  assumes "\<And>data. respond n (sent n) api_url data = Inr (PDict body)"
  shows "let errors = dict_get body (str ''errors'') PNone in
     fst (request_api self ps n)
       = (if py_bool errors then Inl (PayeerAPIException errors) else Inr (PDict body))
     \<and> fst (check_user self user n) = Inr (\<not> py_bool errors)
     \<and> fst (check_output self pay_system ps_account sum_in cur_in cur_out n)
         = Inr (\<not> py_bool errors)
     \<and> (py_bool errors \<longrightarrow>
          fst (get_balance self n) = Inl (PayeerAPIException errors)
        \<and> fst (get_exchange_rate self out n) = Inl (PayeerAPIException errors)
        \<and> fst (get_pay_systems self n) = Inl (PayeerAPIException errors)
        \<and> fst (get_history_info self history_id n) = Inl (PayeerAPIException errors)
        \<and> fst (shop_order_info self shop_id order_id n) = Inl (PayeerAPIException errors)
        \<and> fst (output_action self pay_system ps_account sum_in cur_in cur_out n)
            = Inl (PayeerAPIException errors)
        \<and> fst (history self hps n) = Inl (PayeerAPIException errors)
        \<and> (validate_wallet (unicode_digit env) to = Inr () \<longrightarrow>
             fst (transfer env self amount to cur_in cur_out comment protect protect_period
                    protect_code n)
             = Inl (PayeerAPIException errors)))"
  by (simp add: Let_def request_api_eq assms api_response_dict check_user_def check_output_def
      get_balance_def get_exchange_rate_def get_pay_systems_def get_history_info_def
      shop_order_info_def output_action_def history_def transfer_def)

theorem request_api_errors_witness:
  "fst (request_api example_api [(str ''action'', PStr (str ''balance''))]
         (answering (PDict [(str ''errors'', PList [PStr (str ''bad'')])])))
     = Inl (PayeerAPIException (PList [PStr (str ''bad'')]))
   \<and> fst (check_user example_api (PStr (str ''P1000001''))
         (answering (PDict [(str ''errors'', PList [PStr (str ''bad'')])]))) = Inr False
   \<and> fst (get_balance example_api
         (answering (PDict [(str ''errors'', PList [PStr (str ''bad'')])])))
     = Inl (PayeerAPIException (PList [PStr (str ''bad'')]))
   \<and> fst (request_api example_api [(str ''action'', PStr (str ''balance''))]
         (answering (PDict [(str ''errors'', PList [])])))
     = Inr (PDict [(str ''errors'', PList [])])
   \<and> fst (check_user example_api (PStr (str ''P1000001''))
         (answering (PDict [(str ''errors'', PList [])]))) = Inr True"
proof -
  have a: "\<And>body data. respond (answering body) (sent (answering body)) api_url data = Inr body"
    by (simp add: answering_def)
  show ?thesis
    using request_api_errors
      [where body = "[(str ''errors'', PList [PStr (str ''bad'')])]"
        and n = "answering (PDict [(str ''errors'', PList [PStr (str ''bad'')])])"
        and self = example_api and ps = "[(str ''action'', PStr (str ''balance''))]"
        and user = "PStr (str ''P1000001'')", OF a]
      request_api_errors
      [where body = "[(str ''errors'', PList [])]"
        and n = "answering (PDict [(str ''errors'', PList [])])"
        and self = example_api and ps = "[(str ''action'', PStr (str ''balance''))]"
        and user = "PStr (str ''P1000001'')", OF a]
    by (simp add: Let_def dict_get_def)
qed

section \<open>Transfers\<close>

lemma wallet_example_ok: "validate_wallet (unicode_digit example_env) (str ''P1234567'') = Inr ()"
  by code_simp

text \<open>
  C7. For a transfer to a wallet that passes validation, answered by a JSON object without
  errors, the result is \<open>True\<close> exactly when the object has a \<open>historyId\<close> greater than
  zero: it is \<open>False\<close> when the field is absent, zero or negative.
\<close>

theorem transfer_history_id:
  assumes "validate_wallet (unicode_digit env) to = Inr ()"
    and "\<And>data. respond n (sent n) api_url data = Inr (PDict body)"
    and "\<not> py_bool (dict_get body (str ''errors'') PNone)"
  shows "(map_of body (str ''historyId'') = None \<longrightarrow>
            fst (transfer env self amount to cur_in cur_out comment protect protect_period
                   protect_code n) = Inr False)
     \<and> (\<forall>i. map_of body (str ''historyId'') = Some (PInt i) \<longrightarrow>
            fst (transfer env self amount to cur_in cur_out comment protect protect_period
                   protect_code n) = Inr (0 < i))
     \<and> (\<forall>f. map_of body (str ''historyId'') = Some (PFloat f) \<longrightarrow>
            fst (transfer env self amount to cur_in cur_out comment protect protect_period
                   protect_code n)
            = Inr (case f of Fin m e \<Rightarrow> 0 < m | Inf pos \<Rightarrow> pos | NaN \<Rightarrow> False))"
  using assms
  by (simp add: transfer_def request_api_eq api_response_dict dict_get_def)

theorem transfer_history_id_witness:
  "fst (transfer example_env example_api (PStr (str ''10'')) (str ''P1234567'')
         (PStr (str ''USD'')) (PStr (str ''USD'')) PNone PNone PNone PNone
         (answering (PDict [(str ''historyId'', PInt 42)]))) = Inr True
   \<and> fst (transfer example_env example_api (PStr (str ''10'')) (str ''P1234567'')
         (PStr (str ''USD'')) (PStr (str ''USD'')) PNone PNone PNone PNone
         (answering (PDict [(str ''historyId'', PInt 0)]))) = Inr False
   \<and> fst (transfer example_env example_api (PStr (str ''10'')) (str ''P1234567'')
         (PStr (str ''USD'')) (PStr (str ''USD'')) PNone PNone PNone PNone
         (answering (PDict [(str ''historyId'', PInt (- 7))]))) = Inr False
   \<and> fst (transfer example_env example_api (PStr (str ''10'')) (str ''P1234567'')
         (PStr (str ''USD'')) (PStr (str ''USD'')) PNone PNone PNone PNone
         (answering (PDict []))) = Inr False"
proof -
  have a: "\<And>body data. respond (answering body) (sent (answering body)) api_url data = Inr body"
    by (simp add: answering_def)
  note t = transfer_history_id [where self = example_api
      and amount = "PStr (str ''10'')" and cur_in = "PStr (str ''USD'')"
      and cur_out = "PStr (str ''USD'')" and comment = PNone and protect = PNone
      and protect_period = PNone and protect_code = PNone, OF wallet_example_ok]
  show ?thesis
    using t [where body = "[(str ''historyId'', PInt 42)]"
        and n = "answering (PDict [(str ''historyId'', PInt 42)])", OF a]
      t [where body = "[(str ''historyId'', PInt 0)]"
        and n = "answering (PDict [(str ''historyId'', PInt 0)])", OF a]
      t [where body = "[(str ''historyId'', PInt (- 7))]"
        and n = "answering (PDict [(str ''historyId'', PInt (- 7))])", OF a]
      t [where body = "[]" and n = "answering (PDict [])", OF a]
    by (simp add: dict_get_def)
qed

section \<open>The callback handler\<close>

lemma generate_signature_None: "generate_signature PNone = Inl TypeError"
  by (simp add: generate_signature_def)

lemma merchant_handler_allowed:
  assumes "get_client_ip req = Some ip" "ip \<in> set (allowed_ips env)"
  shows "merchant_handler env self req = Inl TypeError"
  using assms
  by (simp add: merchant_handler_def list_append_def generate_signature_None Let_def)

lemma get_client_ip_POST: "get_client_ip (req\<lparr>POST := posted\<rparr>) = get_client_ip req"
  by (simp add: get_client_ip_def truthy_str_def Let_def cong: if_cong)

text \<open>
  C3. A callback whose client address is not in the allow-list raises
  \<open>PayeerAPIException('Wrong request IP')\<close>, whatever the posted fields and the credentials
  are. No signature is computed on that path: the signature computation of the handler
  raises \<open>TypeError\<close> (lemma \<open>merchant_handler_allowed\<close>), and that is not the outcome.
\<close>

theorem merchant_handler_wrong_ip:
  assumes "case get_client_ip req of None \<Rightarrow> True | Some ip \<Rightarrow> ip \<notin> set (allowed_ips env)"
  shows "merchant_handler env self req
           = Inl (PayeerAPIException (PStr (str ''Wrong request IP'')))
       \<and> (\<forall>self' posted. merchant_handler env self' (req\<lparr>POST := posted\<rparr>)
           = Inl (PayeerAPIException (PStr (str ''Wrong request IP''))))"
  using assms
  by (auto simp: merchant_handler_def get_client_ip_POST split: option.splits)

theorem merchant_handler_wrong_ip_witness:
  "get_client_ip
     \<lparr>META = [(str ''HTTP_X_FORWARDED_FOR'', str ''185.71.65.92, 10.0.0.1 ''),
              (str ''REMOTE_ADDR'', str ''185.71.65.92'')],
      POST = [(str ''m_operation_id'', str ''4711''), (str ''m_status'', str ''success'')]\<rparr>
     = Some (str ''10.0.0.1'')
   \<and> str ''10.0.0.1'' \<notin> set (allowed_ips example_env)
   \<and> merchant_handler example_env example_api
        \<lparr>META = [(str ''HTTP_X_FORWARDED_FOR'', str ''185.71.65.92, 10.0.0.1 ''),
                 (str ''REMOTE_ADDR'', str ''185.71.65.92'')],
         POST = [(str ''m_operation_id'', str ''4711''), (str ''m_status'', str ''success'')]\<rparr>
     = Inl (PayeerAPIException (PStr (str ''Wrong request IP'')))"
proof -
  let ?req = "\<lparr>META = [(str ''HTTP_X_FORWARDED_FOR'', str ''185.71.65.92, 10.0.0.1 ''),
                        (str ''REMOTE_ADDR'', str ''185.71.65.92'')],
                POST = [(str ''m_operation_id'', str ''4711''), (str ''m_status'', str ''success'')]\<rparr>"
  have "strip (last (split_on 0x2C (str ''185.71.65.92, 10.0.0.1 ''))) = str ''10.0.0.1''"
    by (simp add: str_def split_on_def strip_def is_space_def)
  then have ip: "get_client_ip ?req = Some (str ''10.0.0.1'')"
    by (simp add: get_client_ip_def truthy_str_def str_def)
  have out: "str ''10.0.0.1'' \<notin> set (allowed_ips example_env)"
    by (simp add: example_env_def)
  from ip out have "case get_client_ip ?req of None \<Rightarrow> True
      | Some ip \<Rightarrow> ip \<notin> set (allowed_ips example_env)"
    by simp
  from merchant_handler_wrong_ip [OF this, of example_api] ip out show ?thesis by blast
qed

text \<open>
  C2. The handler does not verify: on a callback from an allowed address with every field
  in place and the signature the remote service would send, it raises \<open>TypeError\<close>. The
  list of values is built, \<open>append\<close> returns \<open>None\<close>, and \<open>None\<close> is what is signed.
\<close>

theorem merchant_handler_type_error:
  "merchant_handler example_env example_api
     \<lparr>META = [(str ''REMOTE_ADDR'', str ''185.71.65.92'')],
      POST = [(str ''m_operation_id'', str ''4711''), (str ''m_operation_ps'', str ''2609''),
              (str ''m_operation_date'', str ''21.06.2024 10:00:00''),
              (str ''m_operation_pay_date'', str ''21.06.2024 10:00:05''),
              (str ''m_shop'', str ''777''), (str ''m_orderid'', str ''1001''),
              (str ''m_amount'', str ''10.00''), (str ''m_curr'', str ''USD''),
              (str ''m_desc'', str ''VGVzdCBvcmRlcg==''), (str ''m_status'', str ''success''),
              (str ''m_sign'',
               str ''1A9B8BC4E325297FCCAA3C88617C004774B33E3FE7A38A8388F4BE0D965A7106'')]\<rparr>
   = Inl TypeError"
proof -
  have "str ''185.71.65.92'' \<in> set (allowed_ips example_env)"
    by (simp add: example_env_def)
  then show ?thesis
    by (intro merchant_handler_allowed [where ip = "str ''185.71.65.92''"])
      (simp_all add: get_client_ip_def truthy_str_def)
qed

section \<open>The wallet validator\<close>

text \<open>
  C5. The validator searches: it accepts a string that only ends in a wallet number, and
  one that has a newline after the number.
\<close>

theorem validate_wallet_accepts_prefix:
  "validate_wallet nd (str ''XP1234567'') = Inr ()
   \<and> validate_wallet nd (str ''P1234567'' @ [0x0A]) = Inr ()"
  by (simp add: validate_wallet_def str_def digits_then_end_def re_digit_def at_end_def)

section \<open>The checkout link\<close>

lemma account_example_ok:
  "validate_wallet (unicode_digit example_env) (account example_api) = Inr ()"
  by (simp add: validate_wallet_def example_api_def example_env_def str_def digits_then_end_def
      re_digit_def at_end_def)

lemma b64_chars_example:
  "b64encode [84, 101, 115, 116, 32, 111, 114, 100, 101, 114]
   = [86, 71, 86, 122, 100, 67, 66, 118, 99, 109, 82, 108, 99, 103, 61, 61]"
  by (simp add: b64_char_def byte_of_def)

lemma description_example:
  "generate_description (PStr (str ''Test order'')) = Inr (str ''VGVzdCBvcmRlcg=='')"
proof -
  have "utf8_encode (str ''Test order'') = Inr [84, 101, 115, 116, 32, 111, 114, 100, 101, 114]"
    by (simp add: str_def scalar_value_def utf8_char_def byte_of_def)
  from generate_description_text [OF this]
  have "generate_description (PStr (str ''Test order''))
        = Inr (map unat [86, 71, 86, 122, 100, 67, 66, 118, 99, 109, 82, 108, 99, 103, 61, 61 :: byte])"
    by (simp only: b64_chars_example)
  then show ?thesis by (simp add: str_def)
qed

lemma cleaned_data_five:
  assumes "fld k1 v1 = Some w1" "fld k2 v2 = Some w2" "fld k3 v3 = Some w3"
    "fld k4 v4 = Some w4" "fld k5 v5 = Some w5"
  shows "cleaned_data fld [(k1, v1), (k2, v2), (k3, v3), (k4, v4), (k5, v5)]
         = [(k1, w1), (k2, w2), (k3, w3), (k4, w4), (k5, w5)]"
  using assms by (simp add: cleaned_data_def)

text \<open>
  C4. For a valid order (the configured account passes wallet validation, the form accepts
  the five order fields, and texts and query string can be encoded), \<open>merchant\<close> returns
  the parameter mapping with \<open>m_shop\<close>, \<open>m_orderid\<close>, \<open>m_amount\<close>, \<open>m_curr\<close>, \<open>m_desc\<close> (the base64 description), \<open>m_sign\<close>
  (the signature of merchant id, order id, amount, currency, base64 description and secret
  key), \<open>m_process = send\<close> and \<open>lang\<close>, updated with the caller's extra parameters, which
  win on every key they name; and the network is left as it was.
\<close>

theorem merchant_params:
  assumes wallet: "validate_wallet (unicode_digit env) (account self) = Inr ()"
    and f1: "form_field env (str ''order_id'') order_id = Some (PStr oid)"
    and f2: "form_field env (str ''amount'') amount = Some (PStr amt)"
    and f3: "form_field env (str ''currency'') currency = Some (PStr cur)"
    and f4: "form_field env (str ''description'') descr = Some (PStr dsc)"
    and f5: "form_field env (str ''language'')
               (if language = PNone then default_language env else language) = Some (PStr lang)"
    and d: "generate_description (PStr dsc) = Inr ds"
    and s: "generate_signature
              (PList [PStr (merchant_id self), PStr oid, PStr amt, PStr cur, PStr ds,
                      PStr (merchant_secret_key self)]) = Inr sg"
    and kw: "distinct (map fst kwargs)"
    and u: "urlencode env
              (dict_update
                 [(str ''m_shop'', PStr (merchant_id self)), (str ''m_orderid'', PStr oid),
                  (str ''m_amount'', PStr amt), (str ''m_curr'', PStr cur),
                  (str ''m_desc'', PStr ds), (str ''m_sign'', PStr sg),
                  (str ''m_process'', PStr (str ''send'')), (str ''lang'', PStr lang)]
                 kwargs) = Inr q"
  shows "let base = [(str ''m_shop'', PStr (merchant_id self)), (str ''m_orderid'', PStr oid),
                     (str ''m_amount'', PStr amt), (str ''m_curr'', PStr cur),
                     (str ''m_desc'', PStr ds), (str ''m_sign'', PStr sg),
                     (str ''m_process'', PStr (str ''send'')), (str ''lang'', PStr lang)]
     in merchant env self order_id amount currency descr language kwargs n
          = (Inr \<lparr>location = merchant_url @ q, signature = sg, description = descr,
                  params = dict_update base kwargs\<rparr>, n)
        \<and> (\<forall>k. map_of (dict_update base kwargs) k
                 = (case map_of kwargs k of Some v \<Rightarrow> Some v | None \<Rightarrow> map_of base k))
        \<and> sent (snd (merchant env self order_id amount currency descr language kwargs n))
            = sent n"
proof -
  note data = cleaned_data_five [OF f1 f2 f3 f4 f5]
  show ?thesis
    unfolding merchant_def Let_def data
    by (simp add: wallet dict_get_def dict_item_def d s u map_of_dict_update [OF kw])
qed

theorem merchant_params_witness:
  "merchant example_env example_api (PStr (str ''1001'')) (PStr (str ''10.00''))
     (PStr (str ''USD'')) (PStr (str ''Test order'')) PNone
     [(str ''lang'', PStr (str ''en'')), (str ''m_cipher_method'', PStr (str ''AES 256''))]
     (answering (PDict []))
   = (Inr \<lparr>location = merchant_url @
              str ''m_shop=777&m_orderid=1001&m_amount=10.00&m_curr=USD&m_desc=VGVzdCBvcmRlcg%3D%3D&m_sign=D69470D7CBBEBF4C7F44D791321A09E77716F5B32D61EEE4AA511EE01487C5FD&m_process=send&lang=en&m_cipher_method=AES+256'',
            signature = str ''D69470D7CBBEBF4C7F44D791321A09E77716F5B32D61EEE4AA511EE01487C5FD'',
            description = PStr (str ''Test order''),
            params =
              [(str ''m_shop'', PStr (str ''777'')), (str ''m_orderid'', PStr (str ''1001'')),
               (str ''m_amount'', PStr (str ''10.00'')), (str ''m_curr'', PStr (str ''USD'')),
               (str ''m_desc'', PStr (str ''VGVzdCBvcmRlcg=='')),
               (str ''m_sign'',
                PStr (str ''D69470D7CBBEBF4C7F44D791321A09E77716F5B32D61EEE4AA511EE01487C5FD'')),
               (str ''m_process'', PStr (str ''send'')), (str ''lang'', PStr (str ''en'')),
               (str ''m_cipher_method'', PStr (str ''AES 256''))]\<rparr>,
      answering (PDict []))"
proof -
  have f1: "form_field example_env (str ''order_id'') (PStr (str ''1001''))
              = Some (PStr (str ''1001''))"
    and f2: "form_field example_env (str ''amount'') (PStr (str ''10.00''))
              = Some (PStr (str ''10.00''))"
    and f3: "form_field example_env (str ''currency'') (PStr (str ''USD''))
              = Some (PStr (str ''USD''))"
    and f4: "form_field example_env (str ''description'') (PStr (str ''Test order''))
              = Some (PStr (str ''Test order''))"
    and f5: "form_field example_env (str ''language'')
              (if PNone = PNone then default_language example_env else PNone)
              = Some (PStr (str ''ru''))"
    by code_simp+
  have m: "merchant_id example_api = str ''777''" "merchant_secret_key example_api = str ''secret''"
    by (simp_all add: example_api_def)
  have kw: "distinct (map fst [(str ''lang'', PStr (str ''en'')),
                               (str ''m_cipher_method'', PStr (str ''AES 256''))])"
    by simp
  have u: "urlencode example_env
      (dict_update
         [(str ''m_shop'', PStr (merchant_id example_api)), (str ''m_orderid'', PStr (str ''1001'')),
          (str ''m_amount'', PStr (str ''10.00'')), (str ''m_curr'', PStr (str ''USD'')),
          (str ''m_desc'', PStr (str ''VGVzdCBvcmRlcg=='')),
          (str ''m_sign'',
           PStr (str ''D69470D7CBBEBF4C7F44D791321A09E77716F5B32D61EEE4AA511EE01487C5FD'')),
          (str ''m_process'', PStr (str ''send'')), (str ''lang'', PStr (str ''ru''))]
         [(str ''lang'', PStr (str ''en'')), (str ''m_cipher_method'', PStr (str ''AES 256''))])
    = Inr (str ''m_shop=777&m_orderid=1001&m_amount=10.00&m_curr=USD&m_desc=VGVzdCBvcmRlcg%3D%3D&m_sign=D69470D7CBBEBF4C7F44D791321A09E77716F5B32D61EEE4AA511EE01487C5FD&m_process=send&lang=en&m_cipher_method=AES+256'')"
    by (simp add: example_env_def example_api_def urlencode_text_def quote_plus_def str_def
        scalar_value_def utf8_char_def unat_byte py_upper_def hex_char_def)
  have s: "generate_signature
     (PList [PStr (merchant_id example_api), PStr (str ''1001''), PStr (str ''10.00''),
             PStr (str ''USD''), PStr (str ''VGVzdCBvcmRlcg==''),
             PStr (merchant_secret_key example_api)])
   = Inr (str ''D69470D7CBBEBF4C7F44D791321A09E77716F5B32D61EEE4AA511EE01487C5FD'')"
    unfolding m by (rule signature_example)
  from merchant_params [OF account_example_ok f1 f2 f3 f4 f5 description_example s kw u,
      of "answering (PDict [])"]
  show ?thesis by (simp add: Let_def m)
qed

section \<open>Order fields that do not validate\<close>

text \<open>
  C8. \<open>merchant\<close> runs the form and ignores its verdict. An amount that is not numeric has
  no entry in \<open>cleaned_data\<close>, and reading it raises \<open>KeyError\<close>, not a validation error;
  a language that is not recognized raises \<open>KeyError\<close> too, after the signature has been
  computed.
\<close>

theorem merchant_invalid_field_key_error:
  "fst (merchant example_env example_api (PStr (str ''1001'')) (PStr (str ''abc''))
          (PStr (str ''USD'')) (PStr (str ''Test order'')) PNone [] n)
     = Inl (KeyError (str ''amount''))
   \<and> fst (merchant example_env example_api (PStr (str ''1001'')) (PStr (str ''10.00''))
          (PStr (str ''USD'')) (PStr (str ''Test order'')) (PStr (str ''xx'')) [] n)
     = Inl (KeyError (str ''language''))"
proof -
  have a: "form_field example_env (str ''amount'') (PStr (str ''abc'')) = None"
    and l: "form_field example_env (str ''language'') (PStr (str ''xx'')) = None"
    and f1: "form_field example_env (str ''order_id'') (PStr (str ''1001''))
              = Some (PStr (str ''1001''))"
    and f2: "form_field example_env (str ''amount'') (PStr (str ''10.00''))
              = Some (PStr (str ''10.00''))"
    and f3: "form_field example_env (str ''currency'') (PStr (str ''USD''))
              = Some (PStr (str ''USD''))"
    and f4: "form_field example_env (str ''description'') (PStr (str ''Test order''))
              = Some (PStr (str ''Test order''))"
    and f5: "form_field example_env (str ''language'') (default_language example_env)
              = Some (PStr (str ''ru''))"
    by code_simp+
  have m: "merchant_id example_api = str ''777''" "merchant_secret_key example_api = str ''secret''"
    by (simp_all add: example_api_def)
  show ?thesis
    by (simp add: merchant_def Let_def account_example_ok cleaned_data_def a l f1 f2 f3 f4 f5
        dict_get_def dict_item_def description_example m signature_example)
qed

end
